theory Spec2Isabelle
  imports Main "HOL-Library.Word"
begin

section \<open>The social feed of \<open>src/script.js\<close>: data model\<close>

text \<open>
  The program keeps three collections in the browser's local storage (\<open>posts\<close>,
  \<open>likes\<close>, \<open>comments\<close>) and three session variables (\<open>currentUserId\<close>,
  \<open>currentPostId\<close>, \<open>uploadedImage\<close>). Every handler reads a collection with
  \<open>getPosts\<close>/\<open>getLikes\<close>/\<open>getComments\<close>, changes the parsed copy and writes it
  back with \<open>savePosts\<close>/\<open>saveLikes\<close>/\<open>saveComments\<close>. The model passes one
  record of all six through each handler; a handler that returns before its \<open>save...\<close>
  call returns the record it was given.

  What a handler reads from outside the program is a parameter of its model: the value
  of a text field, the answer to \<open>confirm\<close>, the reading of \<open>Date.now()\<close> and the
  instant of \<open>new Date()\<close>. The calls that only draw (\<open>renderFeed\<close>,
  \<open>renderComments\<close>, \<open>renderAllUsers\<close>) write to no collection and no session variable
  and are left out. A write to local storage is taken to succeed, and what is read back
  is what was written (\<open>JSON.parse\<close> of \<open>JSON.stringify\<close> on these values).

  A JavaScript string is a sequence of 16-bit code units.
\<close>

type_synonym jsstring = "16 word list"

text \<open>
  \<open>String.prototype.trim\<close> removes, at both ends, the code units of ECMAScript's
  WhiteSpace and LineTerminator productions.
\<close>

definition isWhiteSpace :: "16 word \<Rightarrow> bool" where
  "isWhiteSpace c \<longleftrightarrow>
     c = 0x0009 \<or> c = 0x000A \<or> c = 0x000B \<or> c = 0x000C \<or> c = 0x000D \<or> c = 0x0020 \<or>
     c = 0x00A0 \<or> c = 0x1680 \<or> (0x2000 \<le> c \<and> c \<le> 0x200A) \<or> c = 0x2028 \<or>
     c = 0x2029 \<or> c = 0x202F \<or> c = 0x205F \<or> c = 0x3000 \<or> c = 0xFEFF"

definition trim :: "jsstring \<Rightarrow> jsstring" where
  "trim s = rev (dropWhile isWhiteSpace (rev (dropWhile isWhiteSpace s)))"

text \<open>\<open>!x\<close> for a string-or-null \<open>x\<close>: \<open>null\<close> and the empty string are falsy.\<close>

definition truthy :: "jsstring option \<Rightarrow> bool" where
  "truthy x = (case x of None \<Rightarrow> False | Some v \<Rightarrow> v \<noteq> [])"

text \<open>
  The seeded users. Only \<open>id\<close> takes part in the operations below; \<open>bio\<close> and
  \<open>profilePic\<close> are display strings and are left out of the record.
\<close>

record user =
  u_id :: int
  u_name :: string

definition users :: "user list" where
  "users =
     [\<lparr>u_id = 1, u_name = ''Nitesh Sawardekar''\<rparr>,
      \<lparr>u_id = 2, u_name = ''seema Singh''\<rparr>,
      \<lparr>u_id = 3, u_name = ''Dead Coder''\<rparr>]"

definition getUserById :: "int \<Rightarrow> user option" where
  "getUserById userId = find (\<lambda>user. u_id user = userId) users"

text \<open>
  A post as \<open>createPost\<close> and \<open>sharePost\<close> build it. \<open>createPost\<close> writes
  \<open>originalPostId: null\<close> and no \<open>originalUserId\<close>; both read back as \<open>None\<close>.
\<close>

record post =
  p_id :: int
  p_userId :: int
  p_content :: jsstring
  p_image :: "jsstring option"
  p_timestamp :: int
  p_isShared :: bool
  p_originalPostId :: "int option"
  p_originalUserId :: "int option"

record comment =
  c_id :: int
  c_userId :: int
  c_text :: jsstring
  c_timestamp :: int

text \<open>
  The keys of \<open>likes\<close> are the post ids that \<open>toggleLike\<close> is called with. The keys of
  \<open>comments\<close> are values of \<open>currentPostId\<close>, which is a post id or \<open>null\<close>
  (the property \<open>"null"\<close>), hence \<open>int option\<close>.
\<close>

record state =
  posts :: "post list"
  likes :: "int \<rightharpoonup> int list"
  comments :: "int option \<rightharpoonup> comment list"
  currentUserId :: int
  currentPostId :: "int option"
  uploadedImage :: "jsstring option"

text \<open>Empty local storage and the initial values of the three globals.\<close>

definition initial_state :: state where
  "initial_state =
     \<lparr>posts = [], likes = Map.empty, comments = Map.empty,
      currentUserId = 1, currentPostId = None, uploadedImage = None\<rparr>"

text \<open>
  The ways a handler ends other than by running to its last line: the four alerts
  followed by \<open>return\<close>, named as the specification names them, and the uncaught
  \<open>TypeError\<close> of a property access on \<open>undefined\<close>.
\<close>

datatype error = ValidationError | NotFound | InvalidOperation | AlreadyShared | TypeError

text \<open>
  The value a function call evaluates to, as far as the handlers below can produce one:
  \<open>undefined\<close> (a bare \<open>return;\<close> or the end of the body) or a boolean.
\<close>

datatype jsvalue = JSUndefined | JSBoolean bool

section \<open>Array helpers\<close>

text \<open>\<open>Array.prototype.findIndex\<close>: the first index whose element satisfies \<open>P\<close>;
  \<open>None\<close> stands for \<open>-1\<close>.\<close>

fun findIndex :: "('a \<Rightarrow> bool) \<Rightarrow> 'a list \<Rightarrow> nat option" where
  "findIndex P [] = None"
| "findIndex P (x # xs) =
     (if P x then Some 0 else (case findIndex P xs of None \<Rightarrow> None | Some i \<Rightarrow> Some (Suc i)))"

definition indexOf :: "'a list \<Rightarrow> 'a \<Rightarrow> nat option" where
  "indexOf xs a = findIndex (\<lambda>x. x = a) xs"

text \<open>\<open>xs.splice(i, 1)\<close>: the array without its element at index \<open>i\<close>.\<close>

definition splice1 :: "nat \<Rightarrow> 'a list \<Rightarrow> 'a list" where
  "splice1 i xs = take i xs @ drop (Suc i) xs"

section \<open>Posts\<close>

definition createPost :: "jsstring \<Rightarrow> int \<Rightarrow> int \<Rightarrow> state \<Rightarrow> error option \<times> state" where
  "createPost fieldValue now instant s =
     (let content = trim fieldValue in
      if content = [] \<and> \<not> truthy (uploadedImage s) then (Some ValidationError, s)
      else
        let newPost =
          \<lparr>p_id = now, p_userId = currentUserId s, p_content = content,
           p_image = uploadedImage s, p_timestamp = instant, p_isShared = False,
           p_originalPostId = None, p_originalUserId = None\<rparr>
        in (None, s\<lparr>posts := newPost # posts s, uploadedImage := None\<rparr>))"

definition alreadyShared :: "int \<Rightarrow> int \<Rightarrow> post list \<Rightarrow> bool" where
  "alreadyShared userId originalPostId ps =
     list_ex (\<lambda>p. p_userId p = userId \<and> p_isShared p \<and> p_originalPostId p = Some originalPostId) ps"

definition sharePost :: "int \<Rightarrow> int \<Rightarrow> int \<Rightarrow> state \<Rightarrow> error option \<times> state" where
  "sharePost originalPostId now instant s =
     (case find (\<lambda>p. p_id p = originalPostId) (posts s) of
        None \<Rightarrow> (Some NotFound, s)
      | Some originalPost \<Rightarrow>
          if p_userId originalPost = currentUserId s then (Some InvalidOperation, s)
          else if alreadyShared (currentUserId s) originalPostId (posts s)
          then (Some AlreadyShared, s)
          else
            let sharedPost =
              \<lparr>p_id = now, p_userId = currentUserId s, p_content = p_content originalPost,
               p_image = p_image originalPost, p_timestamp = instant, p_isShared = True,
               p_originalPostId = Some originalPostId,
               p_originalUserId = Some (p_userId originalPost)\<rparr>
            in (None, s\<lparr>posts := sharedPost # posts s\<rparr>))"

section \<open>Likes\<close>

definition toggleLike :: "int \<Rightarrow> state \<Rightarrow> state" where
  "toggleLike postId s =
     (let l = (case likes s postId of None \<Rightarrow> [] | Some l \<Rightarrow> l) in
      case indexOf l (currentUserId s) of
        None \<Rightarrow> s\<lparr>likes := (likes s)(postId \<mapsto> l @ [currentUserId s])\<rparr>
      | Some userIndex \<Rightarrow> s\<lparr>likes := (likes s)(postId \<mapsto> splice1 userIndex l)\<rparr>)"

text \<open>What \<open>createPostCard\<close> shows for a post: \<open>isLiked\<close> and \<open>likeCount\<close>.\<close>

definition isLiked :: "state \<Rightarrow> int \<Rightarrow> bool" where
  "isLiked s postId =
     (case likes s postId of None \<Rightarrow> False | Some l \<Rightarrow> currentUserId s \<in> set l)"

definition likeCount :: "state \<Rightarrow> int \<Rightarrow> nat" where
  "likeCount s postId = (case likes s postId of None \<Rightarrow> 0 | Some l \<Rightarrow> length l)"

section \<open>Comments\<close>

definition addComment :: "jsstring \<Rightarrow> int \<Rightarrow> int \<Rightarrow> state \<Rightarrow> error option \<times> state" where
  "addComment fieldValue now instant s =
     (let commentText = trim fieldValue in
      if commentText = [] then (Some ValidationError, s)
      else
        let postComments = (case comments s (currentPostId s) of None \<Rightarrow> [] | Some cs \<Rightarrow> cs);
            newComment =
              \<lparr>c_id = now, c_userId = currentUserId s, c_text = commentText,
               c_timestamp = instant\<rparr>
        in (None, s\<lparr>comments := (comments s)(currentPostId s \<mapsto> postComments @ [newComment])\<rparr>))"

text \<open>
  \<open>saveEditComment\<close>: after the check of the text, \<open>comments[currentPostId]\<close> is read
  and searched with no guard. With no array under the key, \<open>postComments.find\<close> throws;
  with no matching comment, \<open>comment.text = newText\<close> throws. Both happen before
  \<open>saveComments\<close>. \<open>find\<close> returns the first match, and the assignment changes that
  element of the array.
\<close>

definition saveEditComment :: "int \<Rightarrow> jsstring \<Rightarrow> state \<Rightarrow> error option \<times> state" where
  "saveEditComment commentId fieldValue s =
     (let newText = trim fieldValue in
      if newText = [] then (Some ValidationError, s)
      else
        case comments s (currentPostId s) of
          None \<Rightarrow> (Some TypeError, s)
        | Some postComments \<Rightarrow>
            (case findIndex (\<lambda>c. c_id c = commentId) postComments of
               None \<Rightarrow> (Some TypeError, s)
             | Some i \<Rightarrow>
                 (None, s\<lparr>comments := (comments s)(currentPostId s \<mapsto>
                    postComments[i := (postComments ! i)\<lparr>c_text := newText\<rparr>])\<rparr>)))"

text \<open>
  \<open>deleteComment\<close>: \<open>confirmed\<close> is the answer to the \<open>confirm\<close> dialog. The first
  component of the result is how the call ends: \<open>Inl\<close> the exception it throws, or
  \<open>Inr\<close> the value it returns. The body has one bare \<open>return;\<close> (confirmation
  declined) and otherwise runs to its end, with or without the removal, so every call
  that completes returns \<open>undefined\<close>. With no array under the key,
  \<open>postComments.findIndex\<close> throws.
\<close>

definition deleteComment :: "int \<Rightarrow> bool \<Rightarrow> state \<Rightarrow> (error + jsvalue) \<times> state" where
  "deleteComment commentId confirmed s =
     (if \<not> confirmed then (Inr JSUndefined, s)
      else
        case comments s (currentPostId s) of
          None \<Rightarrow> (Inl TypeError, s)
        | Some postComments \<Rightarrow>
            (case findIndex (\<lambda>c. c_id c = commentId) postComments of
               None \<Rightarrow> (Inr JSUndefined, s)
             | Some index \<Rightarrow>
                 (Inr JSUndefined, s\<lparr>comments := (comments s)(currentPostId s \<mapsto>
                    splice1 index postComments)\<rparr>)))"

section \<open>Profile statistics\<close>

record stats =
  userPosts :: nat
  userLikes :: nat
  userComments :: nat

text \<open>
  Lines 163 to 185 of \<open>updateCurrentUserProfile\<close>: one \<open>filter\<close> and two \<open>forEach\<close>
  loops over all posts, each with its own accumulator.
\<close>

definition currentUserStats :: "state \<Rightarrow> stats" where
  "currentUserStats s =
     \<lparr>userPosts = length (filter (\<lambda>post. p_userId post = currentUserId s) (posts s)),
      userLikes =
        fold (\<lambda>post acc.
                if p_userId post = currentUserId s
                then (case likes s (p_id post) of None \<Rightarrow> acc | Some l \<Rightarrow> acc + length l)
                else acc)
             (posts s) 0,
      userComments =
        fold (\<lambda>post acc.
                if p_userId post = currentUserId s
                then (case comments s (Some (p_id post)) of None \<Rightarrow> acc | Some cs \<Rightarrow> acc + length cs)
                else acc)
             (posts s) 0\<rparr>"

text \<open>The whole function: \<open>currentUser.profilePic\<close> throws when \<open>getUserById\<close> finds no user.\<close>

definition updateCurrentUserProfile :: "state \<Rightarrow> error + stats" where
  "updateCurrentUserProfile s =
     (case getUserById (currentUserId s) of
        None \<Rightarrow> Inl TypeError
      | Some currentUser \<Rightarrow> Inr (currentUserStats s))"

text \<open>
  Lines 805 to 826 of \<open>showUserProfile\<close>: the posts are filtered first, and one
  \<open>forEach\<close> over the filtered posts carries both totals.
\<close>

definition modalUserStats :: "int \<Rightarrow> state \<Rightarrow> stats" where
  "modalUserStats userId s =
     (let userPostList = filter (\<lambda>post. p_userId post = userId) (posts s);
          totals =
            fold (\<lambda>post (totalLikes, totalComments).
                    ((case likes s (p_id post) of None \<Rightarrow> totalLikes
                      | Some l \<Rightarrow> totalLikes + length l),
                     (case comments s (Some (p_id post)) of None \<Rightarrow> totalComments
                      | Some cs \<Rightarrow> totalComments + length cs)))
                 userPostList (0, 0)
      in \<lparr>userPosts = length userPostList, userLikes = fst totals, userComments = snd totals\<rparr>)"

definition showUserProfile :: "int \<Rightarrow> state \<Rightarrow> error + stats" where
  "showUserProfile userId s =
     (case getUserById userId of
        None \<Rightarrow> Inl TypeError
      | Some user \<Rightarrow> Inr (modalUserStats userId s))"

text \<open>
  The reference aggregation, written from the specification's words (section 4.4):
  \<open>countFor\<close> and \<open>listFor\<close> read an absent entry as empty, and each total is a sum over
  the user's posts.
\<close>

definition countFor :: "state \<Rightarrow> int \<Rightarrow> nat" where
  "countFor s postId = (case likes s postId of None \<Rightarrow> 0 | Some l \<Rightarrow> length l)"

definition listFor :: "state \<Rightarrow> int \<Rightarrow> comment list" where
  "listFor s postId = (case comments s (Some postId) of None \<Rightarrow> [] | Some cs \<Rightarrow> cs)"

definition listByUser :: "state \<Rightarrow> int \<Rightarrow> post list" where
  "listByUser s userId = filter (\<lambda>p. p_userId p = userId) (posts s)"

definition spec_stats :: "int \<Rightarrow> state \<Rightarrow> stats" where
  "spec_stats userId s =
     \<lparr>userPosts = length (listByUser s userId),
      userLikes = sum_list (map (\<lambda>p. countFor s (p_id p)) (listByUser s userId)),
      userComments = sum_list (map (\<lambda>p. length (listFor s (p_id p))) (listByUser s userId))\<rparr>"

section \<open>Session variables\<close>

text \<open>
  The \<open>change\<close> listener of the user selector (its options are the ids of \<open>users\<close>),
  \<open>openCommentModal\<close>, \<open>closeCommentModal\<close>, the \<open>onload\<close> callback of
  \<open>handleImageUpload\<close> (reached only for a file whose type starts with \<open>image/\<close>) and
  \<open>removeImage\<close>.
\<close>

definition changeCurrentUser :: "int \<Rightarrow> state \<Rightarrow> state" where
  "changeCurrentUser userId s = s\<lparr>currentUserId := userId\<rparr>"

definition openCommentModal :: "int \<Rightarrow> state \<Rightarrow> state" where
  "openCommentModal postId s = s\<lparr>currentPostId := Some postId\<rparr>"

definition closeCommentModal :: "state \<Rightarrow> state" where
  "closeCommentModal s = s\<lparr>currentPostId := None\<rparr>"

definition handleImageUpload :: "bool \<Rightarrow> jsstring \<Rightarrow> state \<Rightarrow> state" where
  "handleImageUpload isImageType dataUrl s =
     (if isImageType then s\<lparr>uploadedImage := Some dataUrl\<rparr> else s)"

definition removeImage :: "state \<Rightarrow> state" where
  "removeImage s = s\<lparr>uploadedImage := None\<rparr>"

section \<open>Reachable states\<close>

text \<open>
  The states the program can be in: it starts from empty storage, and each step is one
  handler run with any input.
\<close>

inductive reachable :: "state \<Rightarrow> bool" where
  r_init: "reachable initial_state"
| r_user: "reachable s \<Longrightarrow> userId \<in> set (map u_id users) \<Longrightarrow> reachable (changeCurrentUser userId s)"
| r_open: "reachable s \<Longrightarrow> reachable (openCommentModal postId s)"
| r_close: "reachable s \<Longrightarrow> reachable (closeCommentModal s)"
| r_image: "reachable s \<Longrightarrow> reachable (handleImageUpload isImageType dataUrl s)"
| r_remove: "reachable s \<Longrightarrow> reachable (removeImage s)"
| r_create: "reachable s \<Longrightarrow> reachable (snd (createPost fieldValue now instant s))"
| r_share: "reachable s \<Longrightarrow> reachable (snd (sharePost originalPostId now instant s))"
| r_like: "reachable s \<Longrightarrow> reachable (toggleLike postId s)"
| r_add: "reachable s \<Longrightarrow> reachable (snd (addComment fieldValue now instant s))"
| r_edit: "reachable s \<Longrightarrow> reachable (snd (saveEditComment commentId fieldValue s))"
| r_delete: "reachable s \<Longrightarrow> reachable (snd (deleteComment commentId confirmed s))"

section \<open>Reading the collections\<close>

text \<open>
  The like array of a post id, an absent entry read as the empty array (the value
  \<open>toggleLike\<close> starts from), and the change \<open>toggleLike\<close> makes to that array for
  user \<open>u\<close>: \<open>push\<close> when \<open>indexOf\<close> is \<open>-1\<close>, \<open>splice\<close> at the index otherwise.
  \<open>sharesOf\<close> lists the posts that the test of \<open>alreadyShared\<close> accepts.
\<close>

definition likesOf :: "state \<Rightarrow> int \<Rightarrow> int list" where
  "likesOf s postId = (case likes s postId of None \<Rightarrow> [] | Some l \<Rightarrow> l)"

definition toggled :: "int \<Rightarrow> int list \<Rightarrow> int list" where
  "toggled u l = (case indexOf l u of None \<Rightarrow> l @ [u] | Some i \<Rightarrow> splice1 i l)"

definition sharesOf :: "int \<Rightarrow> int \<Rightarrow> post list \<Rightarrow> post list" where
  "sharesOf userId originalPostId ps =
     filter (\<lambda>p. p_userId p = userId \<and> p_isShared p \<and> p_originalPostId p = Some originalPostId) ps"

section \<open>Example states\<close>

text \<open>
  States built by running the handlers from empty storage. User 1 posts "hello" at
  clock reading 1000 (\<open>one_post\<close>). User 2 shares that post at 1001 and user 3 takes
  over (\<open>shared_once\<close>). From there a post is written while the clock reads 1001 once
  more, by user 3 (\<open>own_post_collides\<close>) or by user 1 before user 3 returns
  (\<open>other_post_collides\<close>). User 2 opens the comments of post 1000 and writes "nice" at
  1002 (\<open>commented\<close>), having liked the post first in \<open>scenario\<close>.
\<close>

definition hello :: jsstring where "hello = [0x68, 0x65, 0x6C, 0x6C, 0x6F]"

definition nice :: jsstring where "nice = [0x6E, 0x69, 0x63, 0x65]"

definition blank :: jsstring where "blank = [0x20, 0x09]"

definition one_post :: state where
  "one_post = snd (createPost hello 1000 1000 initial_state)"

definition the_share :: post where
  "the_share =
     \<lparr>p_id = 1001, p_userId = 2, p_content = hello, p_image = None, p_timestamp = 1001,
      p_isShared = True, p_originalPostId = Some 1000, p_originalUserId = Some 1\<rparr>"

definition shared_once :: state where
  "shared_once = changeCurrentUser 3 (snd (sharePost 1000 1001 1001 (changeCurrentUser 2 one_post)))"

definition own_post_collides :: state where
  "own_post_collides = snd (createPost hello 1001 1001 shared_once)"

definition other_post_collides :: state where
  "other_post_collides =
     changeCurrentUser 3 (snd (createPost hello 1001 1001 (changeCurrentUser 1 shared_once)))"

definition the_comment :: comment where
  "the_comment = \<lparr>c_id = 1002, c_userId = 2, c_text = nice, c_timestamp = 1002\<rparr>"

definition commented :: state where
  "commented = snd (addComment nice 1002 1002 (openCommentModal 1000 (changeCurrentUser 2 one_post)))"

definition scenario :: state where
  "scenario =
     snd (addComment nice 1002 1002
       (openCommentModal 1000 (toggleLike 1000 (changeCurrentUser 2 one_post))))"

section \<open>Facts about the array helpers\<close>

lemma findIndex_None_iff: "findIndex P xs = None \<longleftrightarrow> (\<forall>x\<in>set xs. \<not> P x)"
  by (induction xs) (auto split: option.splits)

lemma findIndex_Some_first:
  "findIndex P xs = Some i \<Longrightarrow> i < length xs \<and> P (xs ! i) \<and> (\<forall>j<i. \<not> P (xs ! j))"
proof (induction xs arbitrary: i)
  case Nil
  then show ?case by simp
next
  case (Cons x xs)
  show ?case
  proof (cases "P x")
    case True
    with Cons.prems show ?thesis by simp
  next
    case False
    with Cons.prems obtain k where k: "findIndex P xs = Some k" "i = Suc k"
      by (auto split: option.splits)
    from Cons.IH[OF k(1)] False k(2) show ?thesis
      by (auto simp: nth_Cons split: nat.splits)
  qed
qed

lemma findIndex_Some_lt: "findIndex P xs = Some i \<Longrightarrow> i < length xs"
  by (drule findIndex_Some_first) simp

lemma indexOf_None_iff: "indexOf xs a = None \<longleftrightarrow> a \<notin> set xs"
  by (auto simp: indexOf_def findIndex_None_iff)

lemma indexOf_Some_nth: "indexOf xs a = Some i \<Longrightarrow> i < length xs \<and> xs ! i = a"
  unfolding indexOf_def by (drule findIndex_Some_first) simp

lemma length_splice1: "i < length xs \<Longrightarrow> length (splice1 i xs) = length xs - 1"
  by (simp add: splice1_def)

lemma distinct_splice1: "distinct xs \<Longrightarrow> distinct (splice1 i xs)"
  by (simp add: splice1_def set_take_disj_set_drop_if_distinct)

lemma set_splice1_distinct:
  assumes "distinct xs" "i < length xs"
  shows "set (splice1 i xs) = set xs - {xs ! i}"
proof -
  have xs: "xs = take i xs @ (xs ! i) # drop (Suc i) xs"
    using assms(2) by (simp add: id_take_nth_drop)
  have d: "distinct (take i xs @ (xs ! i) # drop (Suc i) xs)"
    using assms(1) xs by simp
  have "set xs = set (take i xs) \<union> {xs ! i} \<union> set (drop (Suc i) xs)"
    by (subst xs) auto
  moreover have "xs ! i \<notin> set (take i xs)" "xs ! i \<notin> set (drop (Suc i) xs)"
    using d by auto
  ultimately show ?thesis by (auto simp: splice1_def)
qed

lemma fold_cond_sum:
  "fold (\<lambda>x acc. if P x then acc + f x else acc) xs (a::nat) = a + sum_list (map f (filter P xs))"
  by (induction xs arbitrary: a) simp_all

lemma fold_pair_sum:
  "fold (\<lambda>x (a, b). (a + f x, b + g x)) xs (a0::nat, b0::nat) =
     (a0 + sum_list (map f xs), b0 + sum_list (map g xs))"
  by (induction xs arbitrary: a0 b0) simp_all

section \<open>The example states, evaluated\<close>

lemma trim_hello: "trim hello = hello"
  by (simp add: trim_def isWhiteSpace_def hello_def)

lemma hello_nonempty: "hello \<noteq> []"
  by (simp add: hello_def)

lemma trim_nice: "trim nice = nice" by (simp add: trim_def isWhiteSpace_def nice_def)

lemma nice_nonempty: "nice \<noteq> []" by (simp add: nice_def)

lemma trim_blank: "trim blank = []" by (simp add: trim_def isWhiteSpace_def blank_def)

lemma one_post_value:
  "one_post =
    \<lparr>posts = [\<lparr>p_id = 1000, p_userId = 1, p_content = hello,
               p_image = None, p_timestamp = 1000, p_isShared = False,
               p_originalPostId = None, p_originalUserId = None\<rparr>],
     likes = Map.empty, comments = Map.empty,
     currentUserId = 1, currentPostId = None, uploadedImage = None\<rparr>"
  by (simp add: one_post_def createPost_def initial_state_def trim_def isWhiteSpace_def
      truthy_def hello_def Let_def)

lemma shared_once_value:
  "shared_once =
    \<lparr>posts = [the_share,
              \<lparr>p_id = 1000, p_userId = 1, p_content = hello,
               p_image = None, p_timestamp = 1000, p_isShared = False,
               p_originalPostId = None, p_originalUserId = None\<rparr>],
     likes = Map.empty, comments = Map.empty,
     currentUserId = 3, currentPostId = None, uploadedImage = None\<rparr>"
  by (simp add: shared_once_def one_post_value changeCurrentUser_def sharePost_def
      alreadyShared_def the_share_def)

lemma own_post_collides_value:
  "own_post_collides =
    \<lparr>posts = [\<lparr>p_id = 1001, p_userId = 3, p_content = hello,
               p_image = None, p_timestamp = 1001, p_isShared = False,
               p_originalPostId = None, p_originalUserId = None\<rparr>,
              the_share,
              \<lparr>p_id = 1000, p_userId = 1, p_content = hello,
               p_image = None, p_timestamp = 1000, p_isShared = False,
               p_originalPostId = None, p_originalUserId = None\<rparr>],
     likes = Map.empty, comments = Map.empty,
     currentUserId = 3, currentPostId = None, uploadedImage = None\<rparr>"
  by (simp add: own_post_collides_def shared_once_value createPost_def trim_hello
      hello_nonempty Let_def)

lemma other_post_collides_value:
  "other_post_collides =
    \<lparr>posts = [\<lparr>p_id = 1001, p_userId = 1, p_content = hello,
               p_image = None, p_timestamp = 1001, p_isShared = False,
               p_originalPostId = None, p_originalUserId = None\<rparr>,
              the_share,
              \<lparr>p_id = 1000, p_userId = 1, p_content = hello,
               p_image = None, p_timestamp = 1000, p_isShared = False,
               p_originalPostId = None, p_originalUserId = None\<rparr>],
     likes = Map.empty, comments = Map.empty,
     currentUserId = 3, currentPostId = None, uploadedImage = None\<rparr>"
  by (simp add: other_post_collides_def shared_once_value createPost_def changeCurrentUser_def
      trim_hello hello_nonempty Let_def)

lemma commented_value:
  "commented =
    \<lparr>posts = [\<lparr>p_id = 1000, p_userId = 1, p_content = hello,
               p_image = None, p_timestamp = 1000, p_isShared = False,
               p_originalPostId = None, p_originalUserId = None\<rparr>],
     likes = Map.empty, comments = [Some 1000 \<mapsto> [the_comment]],
     currentUserId = 2, currentPostId = Some 1000, uploadedImage = None\<rparr>"
  by (simp add: commented_def one_post_value addComment_def openCommentModal_def
      changeCurrentUser_def trim_nice nice_nonempty the_comment_def Let_def)

lemma scenario_value:
  "scenario =
    \<lparr>posts = [\<lparr>p_id = 1000, p_userId = 1, p_content = hello,
               p_image = None, p_timestamp = 1000, p_isShared = False,
               p_originalPostId = None, p_originalUserId = None\<rparr>],
     likes = [1000 \<mapsto> [2]], comments = [Some 1000 \<mapsto> [the_comment]],
     currentUserId = 2, currentPostId = Some 1000, uploadedImage = None\<rparr>"
  by (simp add: scenario_def one_post_value addComment_def openCommentModal_def toggleLike_def
      changeCurrentUser_def trim_nice nice_nonempty the_comment_def indexOf_def Let_def)

section \<open>Creating a post\<close>

text \<open>
  \<open>createPost\<close> succeeds exactly when the trimmed text is not empty or an image is
  staged. When it fails it signals the validation error and returns the state it was
  given. When it succeeds the new post is the head of \<open>posts\<close>. Its id is the clock
  reading, so it differs from the earlier ids when the clock reading does.
\<close>

lemma createPost_succeeds_iff:
  "fst (createPost fieldValue now instant s) = None \<longleftrightarrow>
     trim fieldValue \<noteq> [] \<or> truthy (uploadedImage s)"
  by (auto simp: createPost_def Let_def)

lemma createPost_failure:
  "fst (createPost fieldValue now instant s) \<noteq> None \<Longrightarrow>
     createPost fieldValue now instant s = (Some ValidationError, s)"
  by (auto simp: createPost_def Let_def split: if_splits)

lemma createPost_success:
  assumes "fst (createPost fieldValue now instant s) = None"
  shows "posts (snd (createPost fieldValue now instant s)) =
           \<lparr>p_id = now, p_userId = currentUserId s, p_content = trim fieldValue,
            p_image = uploadedImage s, p_timestamp = instant, p_isShared = False,
            p_originalPostId = None, p_originalUserId = None\<rparr> # posts s"
  using assms by (auto simp: createPost_def Let_def split: if_splits)

lemma createPost_fresh_clock:
  assumes "distinct (map p_id (posts s))" "now \<notin> p_id ` set (posts s)"
  shows "distinct (map p_id (posts (snd (createPost fieldValue now instant s))))"
  using assms by (auto simp: createPost_def Let_def)

text \<open>
  Claim C1. \<open>createPost\<close> succeeds if and only if the trimmed content is non-empty or an
  image is present; a failure signals a validation error and leaves the posts unchanged;
  a success prepends a new post whose id is fresh, distinct from the id of every prior
  post. The first three parts hold, by the lemmas above. The fourth fails: the id is
  \<open>Date.now()\<close>, and a second post created at the same clock reading 1000 as the post
  of \<open>one_post\<close> is accepted and carries the id 1000 again.
\<close>

theorem createPost_same_millisecond:
  "fst (createPost hello 1000 1000 one_post) = None \<and>
   map p_id (posts one_post) = [1000] \<and>
   map p_id (posts (snd (createPost hello 1000 1000 one_post))) = [1000, 1000]"
  by (simp add: one_post_value createPost_def trim_hello hello_nonempty Let_def)

section \<open>Sharing a post\<close>

text \<open>
  The three failures of \<open>sharePost\<close> in the order the code tests them, each returning
  the state it was given, and what a success appends. \<open>P\<close> is the post the lookup
  \<open>posts.find(p => p.id === originalPostId)\<close> returns.
\<close>

lemma sharePost_NotFound:
  "find (\<lambda>p. p_id p = originalPostId) (posts s) = None \<Longrightarrow>
     sharePost originalPostId now instant s = (Some NotFound, s)"
  by (simp add: sharePost_def)

lemma sharePost_InvalidOperation:
  "find (\<lambda>p. p_id p = originalPostId) (posts s) = Some P \<Longrightarrow> p_userId P = currentUserId s \<Longrightarrow>
     sharePost originalPostId now instant s = (Some InvalidOperation, s)"
  by (simp add: sharePost_def)

lemma sharePost_AlreadyShared:
  "find (\<lambda>p. p_id p = originalPostId) (posts s) = Some P \<Longrightarrow> p_userId P \<noteq> currentUserId s \<Longrightarrow>
   alreadyShared (currentUserId s) originalPostId (posts s) \<Longrightarrow>
     sharePost originalPostId now instant s = (Some AlreadyShared, s)"
  by (simp add: sharePost_def)

lemma sharePost_failure_unchanged:
  "fst (sharePost originalPostId now instant s) \<noteq> None \<Longrightarrow>
     snd (sharePost originalPostId now instant s) = s"
  by (auto simp: sharePost_def Let_def split: option.splits if_splits)

lemma sharePost_success:
  assumes "fst (sharePost originalPostId now instant s) = None"
  shows "\<exists>P. find (\<lambda>p. p_id p = originalPostId) (posts s) = Some P \<and>
             p_userId P \<noteq> currentUserId s \<and>
             \<not> alreadyShared (currentUserId s) originalPostId (posts s) \<and>
             snd (sharePost originalPostId now instant s) =
               s\<lparr>posts :=
                 \<lparr>p_id = now, p_userId = currentUserId s, p_content = p_content P,
                  p_image = p_image P, p_timestamp = instant, p_isShared = True,
                  p_originalPostId = Some originalPostId,
                  p_originalUserId = Some (p_userId P)\<rparr> # posts s\<rparr>"
  using assms by (auto simp: sharePost_def Let_def split: option.splits if_splits)

lemma alreadyShared_sharesOf:
  "alreadyShared u pid ps \<longleftrightarrow> sharesOf u pid ps \<noteq> []"
  by (auto simp: alreadyShared_def sharesOf_def list_ex_iff filter_empty_conv)

text \<open>
  Two calls in a row with the same user and post id, the first one succeeding: the second
  fails and changes nothing, and the user then has exactly one share of that id. The
  second failure is \<open>AlreadyShared\<close> unless the share received the id of the post it
  shares (\<open>now = originalPostId\<close>); then the lookup of the second call returns the
  share itself, whose author is the caller, and the failure is \<open>InvalidOperation\<close>.
\<close>

lemma sharePost_twice:
  assumes ok: "fst (sharePost originalPostId now instant s) = None"
  defines "s1 \<equiv> snd (sharePost originalPostId now instant s)"
  shows "fst (sharePost originalPostId now' instant' s1) =
           (if now = originalPostId then Some InvalidOperation else Some AlreadyShared)"
    and "snd (sharePost originalPostId now' instant' s1) = s1"
    and "length (sharesOf (currentUserId s1) originalPostId (posts s1)) = 1"
proof -
  from sharePost_success[OF ok] obtain P where
    P: "find (\<lambda>p. p_id p = originalPostId) (posts s) = Some P"
       "p_userId P \<noteq> currentUserId s"
       "\<not> alreadyShared (currentUserId s) originalPostId (posts s)"
       "s1 = s\<lparr>posts :=
                 \<lparr>p_id = now, p_userId = currentUserId s, p_content = p_content P,
                  p_image = p_image P, p_timestamp = instant, p_isShared = True,
                  p_originalPostId = Some originalPostId,
                  p_originalUserId = Some (p_userId P)\<rparr> # posts s\<rparr>"
    unfolding s1_def by blast
  show "fst (sharePost originalPostId now' instant' s1) =
           (if now = originalPostId then Some InvalidOperation else Some AlreadyShared)"
    using P by (simp add: sharePost_def alreadyShared_def)
  then have "fst (sharePost originalPostId now' instant' s1) \<noteq> None" by simp
  then show "snd (sharePost originalPostId now' instant' s1) = s1"
    by (rule sharePost_failure_unchanged)
  have "sharesOf (currentUserId s) originalPostId (posts s) = []"
    using P(3) by (simp add: alreadyShared_sharesOf)
  then show "length (sharesOf (currentUserId s1) originalPostId (posts s1)) = 1"
    using P(4) by (simp add: sharesOf_def)
qed

text \<open>
  Claim C2. \<open>sharePost\<close> fails with NotFound when no post has the id, with
  InvalidOperation when the post is the caller's own, with AlreadyShared when the caller
  already has a share of that id, and leaves the posts unchanged in each case; two calls
  in sequence with the same user and post id have the first succeed and the second fail
  with AlreadyShared, exactly one share existing afterwards. All of it holds by the lemmas
  above except the kind of the second failure: user 2 shares post 1000 of \<open>one_post\<close>
  at the clock reading 1000, the share gets the id 1000, and the second call fails with
  InvalidOperation.
\<close>

theorem sharePost_twice_same_millisecond:
  "fst (sharePost 1000 1000 1000 (changeCurrentUser 2 one_post)) = None \<and>
   fst (sharePost 1000 1001 1001 (snd (sharePost 1000 1000 1000 (changeCurrentUser 2 one_post))))
     = Some InvalidOperation"
  by (simp add: one_post_value changeCurrentUser_def sharePost_def alreadyShared_def)

text \<open>
  Sharing an already shared post is not forbidden: \<open>sharePost\<close> never reads
  \<open>isShared\<close> of the post it looks up. Let \<open>S\<close> be a shared post, the one the lookup
  returns for \<open>S.id\<close>, let the acting user differ from \<open>S.userId\<close> and have no share
  of \<open>S.id\<close> yet. Then \<open>sharePost(S.id)\<close> succeeds, and the new post's \<open>originalPostId\<close>
  is \<open>S.id\<close> and its \<open>originalUserId\<close> is \<open>S.userId\<close>, the intermediate sharer, not
  the id or the author of the post \<open>S\<close> itself shares.
\<close>

lemma sharePost_of_shared_post:
  assumes "find (\<lambda>p. p_id p = p_id S) (posts s) = Some S"
    and "p_isShared S"
    and "p_userId S \<noteq> currentUserId s"
    and "\<not> alreadyShared (currentUserId s) (p_id S) (posts s)"
  shows "sharePost (p_id S) now instant s =
           (None, s\<lparr>posts :=
              \<lparr>p_id = now, p_userId = currentUserId s, p_content = p_content S,
               p_image = p_image S, p_timestamp = instant, p_isShared = True,
               p_originalPostId = Some (p_id S),
               p_originalUserId = Some (p_userId S)\<rparr> # posts s\<rparr>)"
  using assms by (simp add: sharePost_def)

lemma sharePost_of_shared_post_example:
  "find (\<lambda>p. p_id p = p_id the_share) (posts shared_once) = Some the_share \<and>
   p_isShared the_share \<and> p_userId the_share \<noteq> currentUserId shared_once \<and>
   \<not> alreadyShared (currentUserId shared_once) (p_id the_share) (posts shared_once) \<and>
   fst (sharePost 1001 1002 1002 shared_once) = None \<and>
   p_originalPostId (hd (posts (snd (sharePost 1001 1002 1002 shared_once)))) = Some 1001 \<and>
   p_originalUserId (hd (posts (snd (sharePost 1001 1002 1002 shared_once)))) = Some 2 \<and>
   p_originalPostId the_share = Some 1000 \<and> p_originalUserId the_share = Some 1"
proof -
  have h1: "find (\<lambda>p. p_id p = p_id the_share) (posts shared_once) = Some the_share"
    by (simp add: shared_once_value the_share_def)
  have h2: "p_isShared the_share" by (simp add: the_share_def)
  have h3: "p_userId the_share \<noteq> currentUserId shared_once"
    by (simp add: shared_once_value the_share_def)
  have h4: "\<not> alreadyShared (currentUserId shared_once) (p_id the_share) (posts shared_once)"
    by (simp add: shared_once_value the_share_def alreadyShared_def)
  have i: "p_id the_share = 1001" "p_userId the_share = 2"
    "p_originalPostId the_share = Some 1000" "p_originalUserId the_share = Some 1"
    by (simp_all add: the_share_def)
  show ?thesis
    using h1 h2 h3 h4 i sharePost_of_shared_post[OF h1 h2 h3 h4, of 1002 1002]
    by simp
qed

text \<open>
  Claim C9. For every shared post \<open>S\<close> and every user other than \<open>S.userId\<close> who has
  no share of \<open>S\<close> yet, \<open>sharePost(S.id)\<close> by that user succeeds and the new post
  records \<open>S.id\<close> and \<open>S.userId\<close>. This holds when \<open>S\<close> is the post the lookup finds
  for \<open>S.id\<close> (the lemma above), and fails when a newer post carries the same id, which
  \<open>Date.now()\<close> as the source of ids allows. The share of user 2 has the id 1001, user 3
  is not its author and has shared nothing. In \<open>own_post_collides\<close> the lookup of 1001
  returns user 3's own post and the call fails with InvalidOperation. In
  \<open>other_post_collides\<close> it returns the post of user 1: the call succeeds, and the new
  post records the author 1, not the sharer 2.
\<close>

theorem sharePost_of_shared_post_id_collision:
  "the_share \<in> set (posts own_post_collides) \<and> p_isShared the_share \<and>
   p_userId the_share = 2 \<and> currentUserId own_post_collides = 3 \<and>
   \<not> alreadyShared 3 (p_id the_share) (posts own_post_collides) \<and>
   sharePost (p_id the_share) 1002 1002 own_post_collides =
     (Some InvalidOperation, own_post_collides) \<and>
   the_share \<in> set (posts other_post_collides) \<and> currentUserId other_post_collides = 3 \<and>
   \<not> alreadyShared 3 (p_id the_share) (posts other_post_collides) \<and>
   fst (sharePost (p_id the_share) 1002 1002 other_post_collides) = None \<and>
   p_originalUserId (hd (posts (snd (sharePost (p_id the_share) 1002 1002 other_post_collides))))
     = Some 1"
  by (simp add: own_post_collides_value other_post_collides_value the_share_def sharePost_def
      alreadyShared_def)

text \<open>
  Claim C7. Id uniqueness is an invariant of every mutation: after any sequence of
  \<open>createPost\<close>, \<open>sharePost\<close> and \<open>addComment\<close> every post id is unique among the
  posts and every comment id is unique in the whole system, also when two creations
  happen within the same millisecond. The code takes each id from \<open>Date.now()\<close>: two
  posts created at the clock reading 1000, a share made at the reading its original was
  created at, and two comments written at the reading 1002 each leave two entries with
  one id.
\<close>

theorem ids_not_unique_same_millisecond:
  "\<not> distinct (map p_id (posts (snd (createPost hello 1000 1000 one_post)))) \<and>
   \<not> distinct (map p_id (posts (snd (sharePost 1000 1000 1000 (changeCurrentUser 2 one_post))))) \<and>
   \<not> distinct (map c_id (listFor
        (snd (addComment hello 1002 1002
          (snd (addComment hello 1002 1002 (openCommentModal 1000 one_post))))) 1000))"
  by (simp add: one_post_value createPost_def trim_hello hello_nonempty Let_def
      changeCurrentUser_def sharePost_def alreadyShared_def addComment_def openCommentModal_def
      listFor_def)

section \<open>Likes\<close>

lemma toggleLike_frame_fields:
  "posts (toggleLike postId s) = posts s"
  "comments (toggleLike postId s) = comments s"
  "currentUserId (toggleLike postId s) = currentUserId s"
  "currentPostId (toggleLike postId s) = currentPostId s"
  "uploadedImage (toggleLike postId s) = uploadedImage s"
  by (simp_all add: toggleLike_def Let_def split: option.splits)

lemma toggleLike_other: "postId' \<noteq> postId \<Longrightarrow> likes (toggleLike postId s) postId' = likes s postId'"
  by (simp add: toggleLike_def Let_def split: option.splits)

lemma toggleLike_same:
  "likes (toggleLike postId s) postId = Some (toggled (currentUserId s) (likesOf s postId))"
  by (simp add: toggleLike_def likesOf_def toggled_def Let_def split: option.splits)

lemma likesOf_toggleLike_same:
  "likesOf (toggleLike postId s) postId = toggled (currentUserId s) (likesOf s postId)"
  by (simp add: likesOf_def[of "toggleLike postId s"] toggleLike_same)

lemma likesOf_toggleLike_other:
  "postId' \<noteq> postId \<Longrightarrow> likesOf (toggleLike postId s) postId' = likesOf s postId'"
  by (simp add: likesOf_def toggleLike_other)

lemma toggled_step:
  assumes dl: "distinct l"
  shows "(u \<in> set (toggled u l)) = (u \<notin> set l) \<and> distinct (toggled u l) \<and>
         length (toggled u l) = (if u \<in> set l then length l - 1 else length l + 1)"
proof (cases "indexOf l u")
  case None
  then have "u \<notin> set l" by (simp add: indexOf_None_iff)
  with None dl show ?thesis by (simp add: toggled_def)
next
  case (Some i)
  then have i: "i < length l" "l ! i = u" using indexOf_Some_nth by fastforce+
  then have mem: "u \<in> set l" by auto
  have "set (splice1 i l) = set l - {u}" using set_splice1_distinct[OF dl i(1)] i(2) by simp
  with Some dl mem i show ?thesis by (simp add: toggled_def distinct_splice1 length_splice1)
qed

lemma toggled_twice:
  assumes d: "distinct l"
  shows "(u \<in> set (toggled u (toggled u l))) = (u \<in> set l) \<and>
         length (toggled u (toggled u l)) = length l"
proof -
  have d1: "distinct (toggled u l)" using toggled_step[OF d] by simp
  have "u \<in> set l \<Longrightarrow> 0 < length l" by auto
  with toggled_step[OF d1, of u] toggled_step[OF d, of u] show ?thesis
    by (auto split: if_splits)
qed

lemma toggleLike_distinct:
  assumes "distinct (likesOf s p)"
  shows "distinct (likesOf (toggleLike postId s) p)"
proof (cases "p = postId")
  case False
  then show ?thesis using assms by (simp add: likesOf_toggleLike_other)
next
  case True
  then show ?thesis using assms toggled_step[of "likesOf s postId" "currentUserId s"]
    by (simp add: likesOf_toggleLike_same)
qed

lemma reachable_likes_distinct: "reachable s \<Longrightarrow> distinct (likesOf s p)"
proof (induction rule: reachable.induct)
  case r_init
  show ?case by (simp add: likesOf_def initial_state_def)
next
  case (r_like s postId)
  then show ?case by (simp add: toggleLike_distinct)
qed (simp_all add: likesOf_def changeCurrentUser_def openCommentModal_def closeCommentModal_def
      handleImageUpload_def removeImage_def createPost_def sharePost_def addComment_def
      saveEditComment_def deleteComment_def Let_def split: option.splits if_splits)

lemma reachable_fold_toggleLike: "reachable s \<Longrightarrow> reachable (fold toggleLike postIds s)"
  by (induction postIds arbitrary: s) (simp_all add: r_like)

lemma isLiked_likesOf: "isLiked s postId = (currentUserId s \<in> set (likesOf s postId))"
  by (simp add: isLiked_def likesOf_def split: option.splits)

lemma likeCount_likesOf: "likeCount s postId = length (likesOf s postId)"
  by (simp add: likeCount_def likesOf_def split: option.splits)

text \<open>
  Reachability matters here: on a like array that holds the user twice, which no run of
  the program produces, each call removes one occurrence and the pair does not return to
  the start.
\<close>

lemma toggleLike_twice_on_duplicates:
  "likesOf (toggleLike 7 (toggleLike 7 (initial_state\<lparr>likes := [7 \<mapsto> [1, 1]]\<rparr>))) 7 = []"
  by (simp add: likesOf_def toggleLike_def initial_state_def indexOf_def splice1_def)

text \<open>
  Claim C3. In every reachable state, for every post id and the acting user
  (\<open>currentUserId\<close>), two calls of \<open>toggleLike\<close> in a row are an involution: the first
  call flips the user's membership in the like array of the post, the second flips it
  back, and after the pair the membership and the like count are what they were before
  the first call.
\<close>

theorem toggleLike_twice_involution:
  assumes "reachable s"
  shows "isLiked (toggleLike postId s) postId = (\<not> isLiked s postId) \<and>
         isLiked (toggleLike postId (toggleLike postId s)) postId = isLiked s postId \<and>
         likeCount (toggleLike postId (toggleLike postId s)) postId = likeCount s postId"
proof -
  have d: "distinct (likesOf s postId)" using assms by (rule reachable_likes_distinct)
  show ?thesis
    using toggled_step[OF d, of "currentUserId s"] toggled_twice[OF d, of "currentUserId s"]
    by (simp add: isLiked_likesOf likeCount_likesOf likesOf_toggleLike_same
        toggleLike_frame_fields)
qed

theorem toggleLike_twice_involution_witness:
  "reachable (toggleLike 7 initial_state) \<and>
   isLiked (toggleLike 7 initial_state) 7 \<and>
   \<not> isLiked (toggleLike 7 (toggleLike 7 initial_state)) 7 \<and>
   isLiked (toggleLike 7 (toggleLike 7 (toggleLike 7 initial_state))) 7 \<and>
   likeCount (toggleLike 7 (toggleLike 7 (toggleLike 7 initial_state))) 7 = 1"
proof -
  have r: "reachable (toggleLike 7 initial_state)" by (intro r_like r_init)
  have l: "isLiked (toggleLike 7 initial_state) 7 \<and> likeCount (toggleLike 7 initial_state) 7 = 1"
    by (simp add: isLiked_def likeCount_def toggleLike_def initial_state_def indexOf_def)
  show ?thesis using r l toggleLike_twice_involution[OF r, of 7] by simp
qed

text \<open>
  Claim C8. The like index never holds a duplicate: in every reachable state each user id
  occurs at most once in the like array of every post id, and this stays so after any
  sequence of \<open>toggleLike\<close> calls, however many and in whatever order.
\<close>

theorem likes_never_duplicate:
  assumes "reachable s"
  shows "distinct (likesOf s postId) \<and> distinct (likesOf (fold toggleLike postIds s) postId)"
  using assms reachable_fold_toggleLike[OF assms] by (simp add: reachable_likes_distinct)

theorem likes_never_duplicate_witness:
  "reachable initial_state \<and>
   likesOf (fold toggleLike [7, 8, 7, 7] initial_state) 7 = [1] \<and>
   distinct (likesOf (fold toggleLike [7, 8, 7, 7] initial_state) 7)"
proof -
  have e: "likesOf (fold toggleLike [7, 8, 7, 7] initial_state) 7 = [1]"
    by (simp add: likesOf_def toggleLike_def initial_state_def indexOf_def splice1_def)
  show ?thesis using e likes_never_duplicate[OF r_init, of 7 "[7, 8, 7, 7]"] r_init by simp
qed

text \<open>
  Claim C10. \<open>toggleLike(postId)\<close> changes at most the like array stored under
  \<open>postId\<close>: the array under every other post id, the posts and the comment index
  are as before the call.
\<close>

theorem toggleLike_frame:
  "posts (toggleLike postId s) = posts s \<and> comments (toggleLike postId s) = comments s \<and>
   (\<forall>postId'. postId' \<noteq> postId \<longrightarrow> likes (toggleLike postId s) postId' = likes s postId')"
  by (simp add: toggleLike_frame_fields toggleLike_other)

theorem toggleLike_frame_witness:
  "(8::int) \<noteq> 7 \<and>
   likes (toggleLike 7 (toggleLike 8 initial_state)) 8 = Some [1] \<and>
   likes (toggleLike 8 initial_state) 8 = Some [1] \<and>
   likes (toggleLike 7 (toggleLike 8 initial_state)) 7 = Some [1] \<and>
   posts (toggleLike 7 (toggleLike 8 initial_state)) = posts (toggleLike 8 initial_state)"
proof -
  have e: "likes (toggleLike 8 initial_state) 8 = Some [1]"
    by (simp add: toggleLike_def initial_state_def indexOf_def)
  have f: "likes (toggleLike 7 (toggleLike 8 initial_state)) 7 = Some [1]"
    by (simp add: toggleLike_def initial_state_def indexOf_def)
  show ?thesis using e f toggleLike_frame[of 7 "toggleLike 8 initial_state"] by simp
qed

section \<open>Profile statistics\<close>

lemma currentUserStats_reference: "currentUserStats s = spec_stats (currentUserId s) s"
proof -
  let ?P = "\<lambda>post. p_userId post = currentUserId s"
  have l: "(\<lambda>post acc. if ?P post
              then (case likes s (p_id post) of None \<Rightarrow> acc | Some l \<Rightarrow> acc + length l)
              else acc) =
           (\<lambda>post acc. if ?P post then acc + countFor s (p_id post) else acc)"
    by (intro ext) (simp add: countFor_def split: option.splits)
  have c: "(\<lambda>post acc. if ?P post
              then (case comments s (Some (p_id post)) of None \<Rightarrow> acc | Some cs \<Rightarrow> acc + length cs)
              else acc) =
           (\<lambda>post acc. if ?P post then acc + length (listFor s (p_id post)) else acc)"
    by (intro ext) (simp add: listFor_def split: option.splits)
  show ?thesis
    unfolding currentUserStats_def spec_stats_def listByUser_def l c
    by (simp add: fold_cond_sum)
qed

lemma modalUserStats_reference: "modalUserStats userId s = spec_stats userId s"
proof -
  have f: "(\<lambda>post (totalLikes, totalComments).
              ((case likes s (p_id post) of None \<Rightarrow> totalLikes | Some l \<Rightarrow> totalLikes + length l),
               (case comments s (Some (p_id post)) of None \<Rightarrow> totalComments
                | Some cs \<Rightarrow> totalComments + length cs))) =
           (\<lambda>post (a, b). (a + countFor s (p_id post), b + length (listFor s (p_id post))))"
    by (intro ext) (simp add: countFor_def listFor_def split: option.splits)
  show ?thesis
    unfolding modalUserStats_def spec_stats_def listByUser_def f
    by (simp add: fold_pair_sum Let_def)
qed

text \<open>
  Claim C4. For every user id and every state of the three collections the statistics
  the code computes, in \<open>updateCurrentUserProfile\<close> for the current user and in
  \<open>showUserProfile\<close> for the given one, are the reference aggregation: the number of
  the user's posts, the sum over these posts of the length of the like array of the post's
  id, and the sum over these posts of the length of the comment array of the post's id,
  an absent entry counting zero. The two whole functions return these numbers whenever
  the user id is one of \<open>users\<close>; for any other id they stop at the read of the user's
  picture, before the statistics.
\<close>

theorem profile_stats_reference:
  "currentUserStats s = spec_stats (currentUserId s) s \<and>
   modalUserStats userId s = spec_stats userId s \<and>
   updateCurrentUserProfile s =
     (case getUserById (currentUserId s) of
        None \<Rightarrow> Inl TypeError | Some u \<Rightarrow> Inr (spec_stats (currentUserId s) s)) \<and>
   showUserProfile userId s =
     (case getUserById userId of None \<Rightarrow> Inl TypeError | Some u \<Rightarrow> Inr (spec_stats userId s))"
  by (simp add: currentUserStats_reference modalUserStats_reference
      updateCurrentUserProfile_def showUserProfile_def split: option.splits)

theorem profile_stats_reference_witness:
  "showUserProfile 1 scenario = Inr \<lparr>userPosts = 1, userLikes = 1, userComments = 1\<rparr> \<and>
   updateCurrentUserProfile scenario = Inr \<lparr>userPosts = 0, userLikes = 0, userComments = 0\<rparr> \<and>
   showUserProfile 4 scenario = Inl TypeError"
  using profile_stats_reference[of scenario 1] profile_stats_reference[of scenario 4]
  by (simp add: scenario_value spec_stats_def listByUser_def countFor_def listFor_def
      getUserById_def users_def)

section \<open>Editing and deleting a comment\<close>

text \<open>
  Claim C5, as the code has it. \<open>saveEditComment\<close> tests the new text first: when its
  trimmed form is empty the call fails with the validation error, whether or not the
  comment exists. Every failing call returns the state it was given. When the trimmed
  text is not empty and a comment with the id is stored under the current post, the call
  succeeds and changes the text of the first such comment only: its id, user id and
  timestamp, every other comment of the post, the comments of every other post, the posts
  and the likes are unchanged.
\<close>

theorem saveEditComment_amended:
  "(trim fieldValue = [] \<longrightarrow> saveEditComment commentId fieldValue s = (Some ValidationError, s)) \<and>
   (fst (saveEditComment commentId fieldValue s) \<noteq> None \<longrightarrow>
      snd (saveEditComment commentId fieldValue s) = s) \<and>
   (trim fieldValue \<noteq> [] \<and> comments s (currentPostId s) = Some cs \<and>
    findIndex (\<lambda>c. c_id c = commentId) cs = Some i \<longrightarrow>
      fst (saveEditComment commentId fieldValue s) = None \<and>
      posts (snd (saveEditComment commentId fieldValue s)) = posts s \<and>
      likes (snd (saveEditComment commentId fieldValue s)) = likes s \<and>
      (\<forall>k. k \<noteq> currentPostId s \<longrightarrow>
         comments (snd (saveEditComment commentId fieldValue s)) k = comments s k) \<and>
      (\<exists>cs'. comments (snd (saveEditComment commentId fieldValue s)) (currentPostId s) = Some cs' \<and>
         length cs' = length cs \<and>
         c_text (cs' ! i) = trim fieldValue \<and>
         c_id (cs' ! i) = c_id (cs ! i) \<and>
         c_userId (cs' ! i) = c_userId (cs ! i) \<and>
         c_timestamp (cs' ! i) = c_timestamp (cs ! i) \<and>
         (\<forall>j<length cs. j \<noteq> i \<longrightarrow> cs' ! j = cs ! j)))"
proof (intro conjI impI)
  assume "trim fieldValue = []"
  then show "saveEditComment commentId fieldValue s = (Some ValidationError, s)"
    by (simp add: saveEditComment_def)
next
  assume "fst (saveEditComment commentId fieldValue s) \<noteq> None"
  then show "snd (saveEditComment commentId fieldValue s) = s"
    by (auto simp: saveEditComment_def Let_def split: if_splits option.splits)
next
  assume a: "trim fieldValue \<noteq> [] \<and> comments s (currentPostId s) = Some cs \<and>
    findIndex (\<lambda>c. c_id c = commentId) cs = Some i"
  then have r: "saveEditComment commentId fieldValue s =
      (None, s\<lparr>comments := (comments s)(currentPostId s \<mapsto>
                    cs[i := (cs ! i)\<lparr>c_text := trim fieldValue\<rparr>])\<rparr>)"
    by (simp add: saveEditComment_def)
  from a have i: "i < length cs" using findIndex_Some_lt by blast
  show "fst (saveEditComment commentId fieldValue s) = None" by (simp add: r)
  show "posts (snd (saveEditComment commentId fieldValue s)) = posts s" by (simp add: r)
  show "likes (snd (saveEditComment commentId fieldValue s)) = likes s" by (simp add: r)
  show "\<forall>k. k \<noteq> currentPostId s \<longrightarrow>
         comments (snd (saveEditComment commentId fieldValue s)) k = comments s k"
    by (simp add: r)
  show "\<exists>cs'. comments (snd (saveEditComment commentId fieldValue s)) (currentPostId s) = Some cs' \<and>
         length cs' = length cs \<and>
         c_text (cs' ! i) = trim fieldValue \<and>
         c_id (cs' ! i) = c_id (cs ! i) \<and>
         c_userId (cs' ! i) = c_userId (cs ! i) \<and>
         c_timestamp (cs' ! i) = c_timestamp (cs ! i) \<and>
         (\<forall>j<length cs. j \<noteq> i \<longrightarrow> cs' ! j = cs ! j)"
    using i by (simp add: r)
qed

theorem saveEditComment_amended_witness:
  "trim blank = [] \<and> saveEditComment 1002 blank commented = (Some ValidationError, commented) \<and>
   trim hello \<noteq> [] \<and> comments commented (currentPostId commented) = Some [the_comment] \<and>
   findIndex (\<lambda>c. c_id c = 1002) [the_comment] = Some 0 \<and>
   fst (saveEditComment 1002 hello commented) = None \<and>
   comments (snd (saveEditComment 1002 hello commented)) (Some 1000) =
     Some [\<lparr>c_id = 1002, c_userId = 2, c_text = hello, c_timestamp = 1002\<rparr>]"
proof -
  have h: "trim hello \<noteq> [] \<and> comments commented (currentPostId commented) = Some [the_comment] \<and>
   findIndex (\<lambda>c. c_id c = 1002) [the_comment] = Some 0"
    by (simp add: trim_hello hello_nonempty commented_value the_comment_def)
  have e: "comments (snd (saveEditComment 1002 hello commented)) (Some 1000) =
     Some [\<lparr>c_id = 1002, c_userId = 2, c_text = hello, c_timestamp = 1002\<rparr>]"
    by (simp add: saveEditComment_def trim_hello hello_nonempty commented_value the_comment_def)
  show ?thesis
    using h e trim_blank
      saveEditComment_amended[of blank 1002 commented "[the_comment]" 0]
      saveEditComment_amended[of hello 1002 commented "[the_comment]" 0]
    by simp
qed

text \<open>
  The claim C5 as the specification states it, that an edit of a comment that does not
  exist fails with NotFound, does not hold: no comment of post 1000 in \<open>commented\<close> has
  the id 999, and the edit of 999 fails with the validation error for a blank text and
  with a \<open>TypeError\<close> for the text "hello".
\<close>

theorem saveEditComment_missing_comment:
  "findIndex (\<lambda>c. c_id c = 999) (listFor commented 1000) = None \<and>
   saveEditComment 999 blank commented = (Some ValidationError, commented) \<and>
   saveEditComment 999 hello commented = (Some TypeError, commented) \<and>
   fst (saveEditComment 999 blank commented) \<noteq> Some NotFound \<and>
   fst (saveEditComment 999 hello commented) \<noteq> Some NotFound"
  by (simp add: saveEditComment_def trim_hello trim_blank hello_nonempty commented_value
      the_comment_def listFor_def)

text \<open>
  Claim C6, as the code has it. \<open>deleteComment\<close> first asks for confirmation, and does
  nothing when it is declined. When it is confirmed and a comment array is stored under
  the current post, the call completes: it removes the first comment with the id, and
  that entry only, when there is one, and returns the state it was given when there is
  none; the posts, the likes and the comments of every other post are unchanged. The
  function returns no value: in each of these cases, removal or not, the call evaluates
  to \<open>undefined\<close>.
\<close>

theorem deleteComment_amended:
  "(\<not> confirmed \<longrightarrow> deleteComment commentId confirmed s = (Inr JSUndefined, s)) \<and>
   (confirmed \<and> comments s (currentPostId s) = Some cs \<longrightarrow>
      fst (deleteComment commentId confirmed s) = Inr JSUndefined \<and>
      posts (snd (deleteComment commentId confirmed s)) = posts s \<and>
      likes (snd (deleteComment commentId confirmed s)) = likes s \<and>
      (\<forall>k. k \<noteq> currentPostId s \<longrightarrow>
         comments (snd (deleteComment commentId confirmed s)) k = comments s k) \<and>
      (case findIndex (\<lambda>c. c_id c = commentId) cs of
         None \<Rightarrow> snd (deleteComment commentId confirmed s) = s
       | Some i \<Rightarrow>
           i < length cs \<and> c_id (cs ! i) = commentId \<and> (\<forall>j<i. c_id (cs ! j) \<noteq> commentId) \<and>
           comments (snd (deleteComment commentId confirmed s)) (currentPostId s) =
             Some (take i cs @ drop (Suc i) cs)))"
proof (intro conjI impI)
  assume "\<not> confirmed"
  then show "deleteComment commentId confirmed s = (Inr JSUndefined, s)"
    by (simp add: deleteComment_def)
next
  assume a: "confirmed \<and> comments s (currentPostId s) = Some cs"
  show "fst (deleteComment commentId confirmed s) = Inr JSUndefined"
    using a by (simp add: deleteComment_def split: option.splits)
  show "posts (snd (deleteComment commentId confirmed s)) = posts s"
    using a by (simp add: deleteComment_def split: option.splits)
  show "likes (snd (deleteComment commentId confirmed s)) = likes s"
    using a by (simp add: deleteComment_def split: option.splits)
  show "\<forall>k. k \<noteq> currentPostId s \<longrightarrow>
         comments (snd (deleteComment commentId confirmed s)) k = comments s k"
    using a by (simp add: deleteComment_def split: option.splits)
  show "case findIndex (\<lambda>c. c_id c = commentId) cs of
         None \<Rightarrow> snd (deleteComment commentId confirmed s) = s
       | Some i \<Rightarrow>
           i < length cs \<and> c_id (cs ! i) = commentId \<and> (\<forall>j<i. c_id (cs ! j) \<noteq> commentId) \<and>
           comments (snd (deleteComment commentId confirmed s)) (currentPostId s) =
             Some (take i cs @ drop (Suc i) cs)"
  proof (cases "findIndex (\<lambda>c. c_id c = commentId) cs")
    case None
    with a show ?thesis by (simp add: deleteComment_def)
  next
    case (Some i)
    from findIndex_Some_first[OF Some] a Some show ?thesis
      by (simp add: deleteComment_def splice1_def)
  qed
qed

theorem deleteComment_amended_witness:
  "comments commented (currentPostId commented) = Some [the_comment] \<and>
   deleteComment 1002 False commented = (Inr JSUndefined, commented) \<and>
   findIndex (\<lambda>c. c_id c = 1002) [the_comment] = Some 0 \<and>
   fst (deleteComment 1002 True commented) = Inr JSUndefined \<and>
   comments (snd (deleteComment 1002 True commented)) (Some 1000) = Some [] \<and>
   findIndex (\<lambda>c. c_id c = 999) [the_comment] = None \<and>
   fst (deleteComment 999 True commented) = Inr JSUndefined \<and>
   snd (deleteComment 999 True commented) = commented"
proof -
  have h: "comments commented (currentPostId commented) = Some [the_comment]"
    by (simp add: commented_value)
  have f: "findIndex (\<lambda>c. c_id c = 1002) [the_comment] = Some 0"
    "findIndex (\<lambda>c. c_id c = 999) [the_comment] = None"
    by (simp_all add: the_comment_def)
  have c: "currentPostId commented = Some 1000" by (simp add: commented_value)
  show ?thesis
    using h f c
      deleteComment_amended[of False 1002 commented "[the_comment]"]
      deleteComment_amended[of True 1002 commented "[the_comment]"]
      deleteComment_amended[of True 999 commented "[the_comment]"]
    by simp
qed

text \<open>
  The claim C6 as the specification states it does not hold, in any of its three parts.
  It returns true after a removal and false otherwise: the confirmed delete of the
  comment 1002 of \<open>commented\<close> removes it and returns \<open>undefined\<close>, not \<open>true\<close>, and
  the confirmed delete of the absent comment 999 returns \<open>undefined\<close>, not \<open>false\<close>.
  It removes the matching comment whenever one exists: with the confirmation declined the
  comment 1002 stays. It completes when no entry matches: with no comment array stored
  under post 1000 (\<open>one_post\<close> with the comments of post 1000 open) the call ends in a
  \<open>TypeError\<close>.
\<close>

theorem deleteComment_declined_or_no_list:
  "findIndex (\<lambda>c. c_id c = 1002) (listFor commented 1000) = Some 0 \<and>
   listFor (snd (deleteComment 1002 True commented)) 1000 = [] \<and>
   fst (deleteComment 1002 True commented) = Inr JSUndefined \<and>
   fst (deleteComment 1002 True commented) \<noteq> Inr (JSBoolean True) \<and>
   findIndex (\<lambda>c. c_id c = 999) (listFor commented 1000) = None \<and>
   fst (deleteComment 999 True commented) = Inr JSUndefined \<and>
   fst (deleteComment 999 True commented) \<noteq> Inr (JSBoolean False) \<and>
   deleteComment 1002 False commented = (Inr JSUndefined, commented) \<and>
   listFor (snd (deleteComment 1002 False commented)) 1000 = [the_comment] \<and>
   comments (openCommentModal 1000 one_post) (Some 1000) = None \<and>
   deleteComment 1002 True (openCommentModal 1000 one_post) =
     (Inl TypeError, openCommentModal 1000 one_post)"
  by (simp add: deleteComment_def commented_value the_comment_def listFor_def one_post_value
      openCommentModal_def splice1_def)

end
